theory Spec2Isabelle
  imports Complex_Main "HOL-Library.Sublist"
begin

section \<open>Python string operations used by the alias and validation code\<close>

text \<open>
  Strings are modelled as lists of 8-bit characters, so the development covers ASCII
  text. Python floats are modelled as exact reals. Python sets are modelled as lists
  that stand for the set in its iteration order.
\<close>

definition upper_to_lower :: "(char \<times> char) list" where
  "upper_to_lower = zip ''ABCDEFGHIJKLMNOPQRSTUVWXYZ'' ''abcdefghijklmnopqrstuvwxyz''"

text \<open>\<^verbatim>\<open>str.lower()\<close> on ASCII text: only the letters A to Z change.\<close>

definition lower_char :: "char \<Rightarrow> char" where
  "lower_char c = (case map_of upper_to_lower c of Some d \<Rightarrow> d | None \<Rightarrow> c)"

definition lower :: "string \<Rightarrow> string" where
  "lower s = map lower_char s"

text \<open>\<^verbatim>\<open>t.startswith(p)\<close>.\<close>

fun startswith :: "string \<Rightarrow> string \<Rightarrow> bool" where
  "startswith t [] = True"
| "startswith [] (p # ps) = False"
| "startswith (c # cs) (p # ps) = (c = p \<and> startswith cs ps)"

text \<open>\<^verbatim>\<open>s in t\<close> for strings: \<open>contains t s\<close> holds when \<open>s\<close> occurs in \<open>t\<close> as a
  contiguous run of characters.\<close>

fun contains :: "string \<Rightarrow> string \<Rightarrow> bool" where
  "contains [] s = (s = [])"
| "contains (c # cs) s = (startswith (c # cs) s \<or> contains cs s)"

section \<open>The housing-context gate (enhanced\_reddit\_searcher.py)\<close>

text \<open>The set \<^verbatim>\<open>self.housing_context_keywords\<close> of \<^verbatim>\<open>EnhancedRedditSearcher.__init__\<close>.\<close>

definition housing_context_keywords :: "string list" where
  "housing_context_keywords =
    [''housing'', ''apartment'', ''living'', ''rent'', ''lease'', ''roommate'',
     ''move'', ''dorm'', ''residence'', ''amenities'', ''price'', ''cost'',
     ''utilities'', ''parking'', ''location'', ''campus'', ''walk'', ''shuttle'',
     ''noise'', ''quiet'', ''party'', ''management'', ''maintenance'', ''gym'',
     ''pool'', ''laundry'', ''kitchen'', ''bedroom'', ''bathroom'', ''balcony'']"

text \<open>\<^verbatim>\<open>_has_housing_context\<close>: one is summed for every keyword of the set that occurs in
  the lowercased text.\<close>

definition context_count :: "string \<Rightarrow> nat" where
  "context_count text =
     length (filter (\<lambda>keyword. contains (lower text) keyword) housing_context_keywords)"

definition has_housing_context :: "string \<Rightarrow> bool" where
  "has_housing_context text = (context_count text \<ge> 2)"

text \<open>The characters for which \<^verbatim>\<open>str.isspace()\<close> holds in the ASCII range: space, tab,
  line feed, vertical tab, form feed, carriage return and the four separators 0x1C to 0x1F.\<close>

definition is_space :: "char \<Rightarrow> bool" where
  "is_space c = (c \<in> set [CHR '' '', CHR 0x09, CHR 0x0A, CHR 0x0B, CHR 0x0C, CHR 0x0D,
                           CHR 0x1C, CHR 0x1D, CHR 0x1E, CHR 0x1F])"

text \<open>\<^verbatim>\<open>str.split()\<close> without a separator: the maximal runs of non-whitespace characters,
  in order. \<open>cur\<close> is the word being read.\<close>

fun split_aux :: "string \<Rightarrow> string \<Rightarrow> string list" where
  "split_aux cur [] = (if cur = [] then [] else [cur])"
| "split_aux cur (c # cs) =
     (if is_space c then (if cur = [] then split_aux [] cs else cur # split_aux [] cs)
      else split_aux (cur @ [c]) cs)"

definition split :: "string \<Rightarrow> string list" where
  "split s = split_aux [] s"

section \<open>Alias sets (advanced\_alias\_generator.py)\<close>

text \<open>The dataclass \<^verbatim>\<open>ApartmentAlias\<close>. The field \<open>aliases\<close> is a Python set, given here
  as the list of its members in iteration order.\<close>

record apartment_alias =
  original_name :: string
  aliases :: "string list"
  confidence_scores :: "string \<rightharpoonup> real"

text \<open>\<^verbatim>\<open>aliases.confidence_scores.get(alias, 0.5)\<close>.\<close>

definition get_confidence :: "apartment_alias \<Rightarrow> string \<Rightarrow> real" where
  "get_confidence als alias =
     (case confidence_scores als alias of Some c \<Rightarrow> c | None \<Rightarrow> 0.5)"

section \<open>More string operations\<close>

text \<open>\<^verbatim>\<open>str.upper()\<close> on ASCII text.\<close>

definition upper_char :: "char \<Rightarrow> char" where
  "upper_char c = (case map_of (map (\<lambda>(u, l). (l, u)) upper_to_lower) c of
                     Some d \<Rightarrow> d | None \<Rightarrow> c)"

definition upper :: "string \<Rightarrow> string" where
  "upper s = map upper_char s"

text \<open>\<^verbatim>\<open>' '.join(words)\<close>.\<close>

fun join_space :: "string list \<Rightarrow> string" where
  "join_space [] = []"
| "join_space [w] = w"
| "join_space (w # ws) = w @ '' '' @ join_space ws"

text \<open>
  \<^verbatim>\<open>s.replace(old, new)\<close>: the occurrences of \<open>old\<close> are replaced from left to right
  without overlap. \<open>skip\<close> counts the characters of a matched occurrence still to be
  passed over. For an empty \<open>old\<close>, Python puts \<open>new\<close> before every character and at
  the end.
\<close>

fun replace_aux :: "nat \<Rightarrow> string \<Rightarrow> string \<Rightarrow> string \<Rightarrow> string" where
  "replace_aux skip [] old new = []"
| "replace_aux (Suc skip) (c # cs) old new = replace_aux skip cs old new"
| "replace_aux 0 (c # cs) old new =
     (if startswith (c # cs) old then new @ replace_aux (length old - 1) cs old new
      else c # replace_aux 0 cs old new)"

definition replace :: "string \<Rightarrow> string \<Rightarrow> string \<Rightarrow> string" where
  "replace s old new =
     (if old = [] then new @ concat (map (\<lambda>c. c # new) s) else replace_aux 0 s old new)"

text \<open>\<^verbatim>\<open>c.isdigit()\<close>, \<^verbatim>\<open>w.isdigit()\<close> and \<^verbatim>\<open>any(c.isdigit() for c in w)\<close> on ASCII
  text.\<close>

definition is_digit :: "char \<Rightarrow> bool" where
  "is_digit c = (c \<in> set ''0123456789'')"

definition isdigit :: "string \<Rightarrow> bool" where
  "isdigit w = (w \<noteq> [] \<and> list_all is_digit w)"

definition any_digit :: "string \<Rightarrow> bool" where
  "any_digit w = list_ex is_digit w"

text \<open>\<^verbatim>\<open>re.search(r'\d+', w).group()\<close> for a word with a digit: its first maximal run of
  digits.\<close>

definition first_digit_run :: "string \<Rightarrow> string" where
  "first_digit_run w = takeWhile is_digit (dropWhile (\<lambda>c. \<not> is_digit c) w)"

text \<open>The characters matched by \<^verbatim>\<open>\w\<close> in the ASCII range, and
  \<^verbatim>\<open>re.sub(r'[^\w\s]', '', s)\<close>.\<close>

definition is_word_char :: "char \<Rightarrow> bool" where
  "is_word_char c =
     (c \<in> set (''abcdefghijklmnopqrstuvwxyz'' @ ''ABCDEFGHIJKLMNOPQRSTUVWXYZ''
               @ ''0123456789'' @ ''_''))"

definition remove_punctuation :: "string \<Rightarrow> string" where
  "remove_punctuation s = filter (\<lambda>c. is_word_char c \<or> is_space c) s"

section \<open>Alias generation (advanced\_alias\_generator.py)\<close>

text \<open>The tables of \<^verbatim>\<open>AdvancedAliasGenerator.__init__\<close>. Dictionaries are association
  lists in insertion order.\<close>

definition common_words :: "string list" where
  "common_words =
     [''apartment'', ''apartments'', ''apt'', ''apts'',
      ''student'', ''housing'', ''residences'', ''residence'',
      ''complex'', ''community'', ''towers'', ''tower'',
      ''lofts'', ''loft'', ''place'', ''plaza'', ''point'', ''pointe'',
      ''square'', ''station'', ''flats'', ''the'', ''at'', ''on'', ''of'',
      ''hall'', ''halls'', ''house'', ''houses'', ''village'', ''commons'',
      ''center'', ''centre'', ''park'', ''gardens'', ''court'', ''courts'']"

definition number_words :: "(string \<times> string) list" where
  "number_words =
     [(''one'', ''1''), (''two'', ''2''), (''three'', ''3''), (''four'', ''4''), (''five'', ''5''),
      (''six'', ''6''), (''seven'', ''7''), (''eight'', ''8''), (''nine'', ''9''), (''ten'', ''10''),
      (''eleven'', ''11''), (''twelve'', ''12''), (''thirteen'', ''13''), (''fourteen'', ''14''),
      (''fifteen'', ''15''), (''sixteen'', ''16''), (''seventeen'', ''17''), (''eighteen'', ''18''),
      (''nineteen'', ''19''), (''twenty'', ''20''), (''thirty'', ''30''), (''forty'', ''40''),
      (''fifty'', ''50''), (''sixty'', ''60''), (''seventy'', ''70''), (''eighty'', ''80''),
      (''ninety'', ''90''), (''hundred'', ''100'')]"

definition ordinal_words :: "(string \<times> string) list" where
  "ordinal_words =
     [(''first'', ''1st''), (''second'', ''2nd''), (''third'', ''3rd''), (''fourth'', ''4th''),
      (''fifth'', ''5th''), (''sixth'', ''6th''), (''seventh'', ''7th''), (''eighth'', ''8th''),
      (''ninth'', ''9th''), (''tenth'', ''10th''), (''eleventh'', ''11th''), (''twelfth'', ''12th''),
      (''thirteenth'', ''13th''), (''fourteenth'', ''14th''), (''fifteenth'', ''15th''),
      (''sixteenth'', ''16th''), (''seventeenth'', ''17th''), (''eighteenth'', ''18th''),
      (''nineteenth'', ''19th''), (''twentieth'', ''20th'')]"

definition abbreviation_patterns :: "(string \<times> string list) list" where
  "abbreviation_patterns =
     [(''apartment'', [''apt'']), (''apartments'', [''apts'']),
      (''building'', [''bldg'']), (''buildings'', [''bldgs'']),
      (''tower'', [''twr'']), (''towers'', [''twrs'']),
      (''place'', [''pl'']), (''plaza'', [''plz'']),
      (''street'', [''st'']), (''avenue'', [''ave'']), (''boulevard'', [''blvd'']),
      (''court'', [''ct'']), (''circle'', [''cir'']), (''drive'', [''dr'']),
      (''residence'', [''res'']), (''residences'', [''res'']),
      (''student'', [''stud'']), (''university'', [''univ'', ''u'']),
      (''college'', [''coll'']), (''campus'', [''camp''])]"

text \<open>\<^verbatim>\<open>_generate_basic_aliases\<close>. Every pass returns a Python set, given as a list of its
  members; repetitions in the list do not matter.\<close>

definition generate_basic_aliases :: "string \<Rightarrow> string list" where
  "generate_basic_aliases name =
     (let clean_name = lower name;
          words = split clean_name;
          filtered_words = filter (\<lambda>w. w \<notin> set common_words) words
      in (if filtered_words \<noteq> [] then [join_space filtered_words] else [])
         @ (if startswith clean_name ''the '' then [drop 4 clean_name] else [])
         @ [remove_punctuation clean_name]
         @ [replace clean_name '' '' []])"

text \<open>\<^verbatim>\<open>_generate_abbreviation_aliases\<close>. The words of \<^verbatim>\<open>split()\<close> are never empty, so
  \<^verbatim>\<open>w[0]\<close> is \<open>take 1 w\<close>.\<close>

definition generate_abbreviation_aliases :: "string \<Rightarrow> string list" where
  "generate_abbreviation_aliases name =
     (let words = split (lower name);
          abbrev = concat (map (take 1) (filter (\<lambda>w. w \<notin> set common_words) words));
          letters = map (take 1)
                      (filter (\<lambda>w. w \<notin> set common_words \<and> \<not> isdigit w) words);
          numbers = filter (\<lambda>w. isdigit w \<or> any_digit w) words
      in (if length words > 1 \<and> length abbrev \<ge> 2 then [abbrev] else [])
         @ (if letters \<noteq> [] \<and> numbers \<noteq> []
            then map (\<lambda>num. concat letters @ num) numbers else []))"

text \<open>The abbreviation table local to \<^verbatim>\<open>_generate_short_form_aliases\<close>.\<close>

definition short_form_patterns :: "(string \<times> string list) list" where
  "short_form_patterns =
     [(''square'', [''sq'', ''sqr'']), (''apartment'', [''apt'']), (''building'', [''bldg'']),
      (''tower'', [''twr'']), (''place'', [''pl'']), (''street'', [''st'']),
      (''avenue'', [''ave'']), (''court'', [''ct'']), (''circle'', [''cir'']),
      (''drive'', [''dr'']), (''station'', [''sta'', ''stn''])]"

text \<open>The two- and three-letter prefixes of a word with every number, as in patterns 1
  and 4 of \<^verbatim>\<open>_generate_short_form_aliases\<close>.\<close>

definition prefix_number_aliases :: "string list \<Rightarrow> string list \<Rightarrow> string list" where
  "prefix_number_aliases main_words numbers =
     concat (map (\<lambda>main_word. concat (map (\<lambda>num.
         (if length main_word \<ge> 2 then [upper (take 2 main_word) @ num] else [])
         @ (if length main_word \<ge> 3 then [upper (take 3 main_word) @ num] else []))
       numbers)) main_words)"

text \<open>\<^verbatim>\<open>_generate_short_form_aliases\<close>.\<close>

definition generate_short_form_aliases :: "string \<Rightarrow> string list" where
  "generate_short_form_aliases name =
     (let words = split (lower name);
          numbers =
            concat (map (\<lambda>word. if isdigit word then [word]
                           else if any_digit word then [first_digit_run word] else []) words)
            @ concat (map (\<lambda>word. case map_of ordinal_words word of
                             None \<Rightarrow> []
                           | Some ordinal_num \<Rightarrow>
                               (if any_digit ordinal_num then [first_digit_run ordinal_num]
                                else [])) words);
          main_words = filter (\<lambda>w. w \<notin> set common_words \<and> \<not> any_digit w) words;
          pattern1 = (if main_words \<noteq> [] \<and> numbers \<noteq> []
                      then prefix_number_aliases main_words numbers else []);
          pattern2 = concat (map (\<lambda>word.
                        let consonants = filter (\<lambda>c. c \<notin> set ''aeiou'') word
                        in if length consonants \<ge> 2
                           then map (\<lambda>num. upper consonants @ num) numbers else [])
                      main_words);
          pattern3 = concat (map (\<lambda>word. case map_of short_form_patterns word of
                        None \<Rightarrow> []
                      | Some abbrevs \<Rightarrow>
                          concat (map (\<lambda>abbrev.
                            replace (replace (lower name) word abbrev) '' '' []
                            # map (\<lambda>num. upper abbrev @ num) numbers) abbrevs))
                      words);
          pattern4 = (if length main_words \<ge> 1 \<and> numbers \<noteq> []
                      then prefix_number_aliases main_words numbers
                           @ (if length main_words \<ge> 2
                              then map (\<lambda>num. concat (map (\<lambda>w. upper (take 1 w)) main_words) @ num)
                                     numbers
                              else [])
                      else []);
          pattern5 = concat (map (\<lambda>word. case map_of abbreviation_patterns word of
                        None \<Rightarrow> []
                      | Some abbrevs \<Rightarrow>
                          concat (map (\<lambda>abbrev. concat (map (\<lambda>num.
                            [upper abbrev @ num, lower abbrev @ num]) numbers)) abbrevs))
                      main_words)
      in pattern1 @ pattern2 @ pattern3 @ pattern4 @ pattern5)"

text \<open>The substitution table of \<^verbatim>\<open>_generate_phonetic_aliases\<close>.\<close>

definition phonetic_subs :: "(string \<times> string) list" where
  "phonetic_subs =
     [(''ph'', ''f''), (''f'', ''ph''), (''c'', ''k''), (''k'', ''c''),
      (''z'', ''s''), (''s'', ''z''), (''i'', ''y''), (''y'', ''i'')]"

text \<open>\<^verbatim>\<open>_generate_phonetic_aliases\<close>. \<open>soundex\<close> stands for \<^verbatim>\<open>phonetics.soundex\<close>, with
  \<open>None\<close> when it raises: the exception is passed over.\<close>

definition generate_phonetic_aliases :: "(string \<Rightarrow> string option) \<Rightarrow> string \<Rightarrow> string list" where
  "generate_phonetic_aliases soundex name =
     (case soundex name of None \<Rightarrow> [] | Some code \<Rightarrow> [code])
     @ concat (map (\<lambda>(original, replacement).
                 if contains (lower name) original
                 then [replace (lower name) original replacement] else [])
               phonetic_subs)"

text \<open>\<^verbatim>\<open>_generate_number_aliases\<close>; \<^verbatim>\<open>ordinal[:-2]\<close> drops the last two characters.\<close>

definition generate_number_aliases :: "string \<Rightarrow> string list" where
  "generate_number_aliases name =
     (let name_lower = lower name
      in concat (map (\<lambda>(word, digit).
                   if contains name_lower word then [replace name_lower word digit] else [])
                 number_words)
         @ concat (map (\<lambda>(word, ordinal).
                   if contains name_lower word
                   then [replace name_lower word ordinal,
                         replace name_lower word (take (length ordinal - 2) ordinal)]
                   else [])
                 ordinal_words))"

text \<open>\<^verbatim>\<open>_generate_location_aliases\<close>, for the dictionary \<^verbatim>\<open>self.location_config\<close>.\<close>

definition generate_location_aliases :: "(string \<times> string list) list \<Rightarrow> string \<Rightarrow> string list" where
  "generate_location_aliases location_config name =
     (if location_config = [] then []
      else let name_lower = lower name
           in concat (map (\<lambda>(location_term, abbrevs).
                  let location_lower = lower location_term
                  in if contains name_lower location_lower
                     then concat (map (\<lambda>abbrev.
                            let alias = replace name_lower location_lower (lower abbrev)
                            in [alias, replace alias '' '' []]) abbrevs)
                     else [])
                location_config))"

text \<open>One step of \<^verbatim>\<open>generate_all_aliases\<close>: \<^verbatim>\<open>aliases.update(new)\<close> followed by the loop
  that assigns the weight of the pass to every alias of \<open>new\<close>.\<close>

definition add_aliases ::
  "string list \<Rightarrow> real \<Rightarrow> string list \<times> (string \<rightharpoonup> real) \<Rightarrow> string list \<times> (string \<rightharpoonup> real)" where
  "add_aliases new weight state =
     (case state of (als, scores) \<Rightarrow>
        (als @ filter (\<lambda>a. a \<notin> set als) (remdups new),
         (\<lambda>a. if a \<in> set new then Some weight else scores a)))"

text \<open>\<^verbatim>\<open>generate_all_aliases\<close>: the original name at 1.0, then the six passes in the order
  of the source.\<close>

definition generate_all_aliases ::
  "(string \<Rightarrow> string option) \<Rightarrow> (string \<times> string list) list \<Rightarrow> string \<Rightarrow> apartment_alias" where
  "generate_all_aliases soundex location_config apartment_name =
     (let state = ([lower apartment_name], [lower apartment_name \<mapsto> 1.0]);
          state = add_aliases (generate_basic_aliases apartment_name) 0.9 state;
          state = add_aliases (generate_abbreviation_aliases apartment_name) 0.8 state;
          state = add_aliases (generate_short_form_aliases apartment_name) 0.7 state;
          state = add_aliases (generate_phonetic_aliases soundex apartment_name) 0.6 state;
          state = add_aliases (generate_number_aliases apartment_name) 0.85 state;
          state = add_aliases (generate_location_aliases location_config apartment_name) 0.75 state
      in \<lparr>original_name = apartment_name, aliases = fst state,
          confidence_scores = snd state\<rparr>)"

section \<open>Mention detection (enhanced\_reddit\_searcher.py)\<close>

text \<open>
  The score of one alias in \<^verbatim>\<open>_find_mentioned_apartments\<close>. \<open>ratio\<close> stands for
  \<^verbatim>\<open>fuzz.ratio\<close> of the fuzzywuzzy library, an integer from 0 to 100. The inner
  \<^verbatim>\<open>for\<close> loop leaves at the first word whose ratio is at least 85; its \<^verbatim>\<open>else\<close>
  branch runs when no word has one.
\<close>

definition alias_score :: "(string \<Rightarrow> string \<Rightarrow> nat) \<Rightarrow> real \<Rightarrow> string \<Rightarrow> string \<Rightarrow> real" where
  "alias_score ratio confidence alias text_lower =
     (if contains text_lower alias then confidence
      else if length alias > 4 then
        (case find (\<lambda>word. ratio alias word \<ge> 85) (split text_lower) of
           Some word \<Rightarrow> confidence * (real (ratio alias word) / 100)
         | None \<Rightarrow> 0)
      else 0)"

text \<open>The loop over the aliases of one apartment: \<^verbatim>\<open>best_score\<close> starts at 0.0 and
  takes the maximum with every alias's score.\<close>

definition best_mention_score :: "(string \<Rightarrow> string \<Rightarrow> nat) \<Rightarrow> apartment_alias \<Rightarrow> string \<Rightarrow> real" where
  "best_mention_score ratio als text_lower =
     foldl (\<lambda>best_score alias.
              max best_score (alias_score ratio (get_confidence als alias) alias text_lower))
           0 (aliases als)"

text \<open>\<^verbatim>\<open>_find_mentioned_apartments\<close>: \<open>apartments\<close> is \<^verbatim>\<open>self.apartments\<close> and
  \<open>apartment_aliases\<close> the dictionary \<^verbatim>\<open>self.apartment_aliases\<close>.\<close>

definition find_mentioned_apartments ::
  "(string \<Rightarrow> string \<Rightarrow> nat) \<Rightarrow> string list \<Rightarrow> (string \<rightharpoonup> apartment_alias) \<Rightarrow> string
     \<Rightarrow> (string \<rightharpoonup> real)" where
  "find_mentioned_apartments ratio apartments apartment_aliases text =
     foldl (\<lambda>mentioned apt_name.
              case apartment_aliases apt_name of
                None \<Rightarrow> mentioned
              | Some als \<Rightarrow>
                  (let best_score = best_mention_score ratio als (lower text)
                   in if best_score \<ge> 0.6 then mentioned(apt_name \<mapsto> best_score)
                      else mentioned))
           Map.empty apartments"

section \<open>Fuzzy matching (advanced\_alias\_generator.py)\<close>

text \<open>The score of one alias in \<^verbatim>\<open>find_best_match\<close>: 100 on equality with the
  lowercased search term, else \<^verbatim>\<open>fuzz.ratio\<close>.\<close>

definition match_score :: "(string \<Rightarrow> string \<Rightarrow> nat) \<Rightarrow> string \<Rightarrow> string \<Rightarrow> nat" where
  "match_score ratio search_term_lower alias =
     (if search_term_lower = alias then 100 else ratio search_term_lower alias)"

text \<open>The inner loop of \<^verbatim>\<open>find_best_match\<close> over the aliases of one apartment. Its
  state is \<^verbatim>\<open>(best_score, best_alias, confidence)\<close>, from \<^verbatim>\<open>(0, None, 0)\<close>; only a
  strictly greater score replaces the best one.\<close>

definition best_match ::
  "(string \<Rightarrow> string \<Rightarrow> nat) \<Rightarrow> string \<Rightarrow> apartment_alias \<Rightarrow> nat \<times> string option \<times> real" where
  "best_match ratio search_term_lower apt_alias =
     foldl (\<lambda>(best_score, best_alias, confidence) alias.
              let score = match_score ratio search_term_lower alias
              in if score > best_score
                 then (score, Some alias, get_confidence apt_alias alias)
                 else (best_score, best_alias, confidence))
           (0, None, 0) (aliases apt_alias)"

text \<open>The outer loop: an apartment is appended to \<^verbatim>\<open>matches\<close> when its best score
  reaches the threshold.\<close>

fun collect_matches ::
  "(string \<Rightarrow> string \<Rightarrow> nat) \<Rightarrow> string \<Rightarrow> apartment_alias list \<Rightarrow> int
     \<Rightarrow> (string \<times> nat \<times> string option \<times> real) list" where
  "collect_matches ratio search_term_lower [] threshold = []"
| "collect_matches ratio search_term_lower (apt_alias # rest) threshold =
     (case best_match ratio search_term_lower apt_alias of
        (best_score, best_alias, confidence) \<Rightarrow>
          (if int best_score \<ge> threshold
           then [(original_name apt_alias, best_score, best_alias, confidence)]
           else [])
          @ collect_matches ratio search_term_lower rest threshold)"

text \<open>\<^verbatim>\<open>find_best_match\<close>. \<^verbatim>\<open>matches.sort(key=lambda x: x[1], reverse=True)\<close> is a
  stable sort by descending score.\<close>

definition find_best_match ::
  "(string \<Rightarrow> string \<Rightarrow> nat) \<Rightarrow> string \<Rightarrow> apartment_alias list \<Rightarrow> int
     \<Rightarrow> (string \<times> nat \<times> string option \<times> real) list" where
  "find_best_match ratio search_term apartment_aliases threshold =
     sort_key (\<lambda>m. - int (fst (snd m)))
       (collect_matches ratio (lower search_term) apartment_aliases threshold)"

section \<open>Search terms (enhanced\_reddit\_searcher.py)\<close>

text \<open>
  \<^verbatim>\<open>list(set(search_terms))\<close> lists the distinct tuples in the iteration order of a
  Python set, which the language leaves open. The order is a parameter \<open>set_order\<close> of
  the model; \<open>is_set_order\<close> says what every such order satisfies.
\<close>

definition is_set_order :: "('a list \<Rightarrow> 'a list) \<Rightarrow> bool" where
  "is_set_order set_order = (\<forall>xs. distinct (set_order xs) \<and> set (set_order xs) = set xs)"

text \<open>\<^verbatim>\<open>generate_search_terms\<close>. The sort by \<^verbatim>\<open>key=lambda x: x[1], reverse=True\<close> is
  stable and descending in the confidence.\<close>

definition generate_search_terms ::
  "((string \<times> real) list \<Rightarrow> (string \<times> real) list) \<Rightarrow> (string \<rightharpoonup> apartment_alias) \<Rightarrow> string
     \<Rightarrow> (string \<times> real) list" where
  "generate_search_terms set_order apartment_aliases apartment_name =
     (case apartment_aliases apartment_name of
        None \<Rightarrow> [(lower apartment_name, 1.0)]
      | Some als \<Rightarrow>
          (let search_terms =
                 [(lower apartment_name, 1.0)]
                 @ [(alias, get_confidence als alias). alias \<leftarrow> aliases als,
                      get_confidence als alias \<ge> 0.8]
                 @ [(alias, get_confidence als alias). alias \<leftarrow> aliases als,
                      0.6 \<le> get_confidence als alias \<and> get_confidence als alias < 0.8];
               search_terms = set_order search_terms;
               search_terms = sort_key (\<lambda>x. - snd x) search_terms
           in take 10 search_terms))"


section \<open>The validation grid (supabase\_grid\_manager.py)\<close>

text \<open>One cell of \<^verbatim>\<open>grid_data['validation_grid'][source][mentioned]\<close>.\<close>

record cell =
  comment_count :: nat
  verified_comments :: nat
  confidence_sum :: real
  average_confidence :: real
  last_updated :: "string option"

text \<open>The entry stored in \<^verbatim>\<open>grid_data['comments']\<close> under a comment id. Timestamps are
  kept as their ISO strings.\<close>

record comment_data =
  source_apartment :: string
  mentioned_apartment :: string
  comment_text :: string
  confidence_score :: real
  validation_status :: string
  created_at :: string
  reddit_post_id :: string
  reddit_comment_id :: string

text \<open>The dataclass \<^verbatim>\<open>CommentValidation\<close>: the stored fields and the comment id.\<close>

record comment_validation = comment_data +
  comment_id :: string

record metadata =
  meta_created_at :: string
  meta_last_updated :: string
  total_apartments :: nat

text \<open>The JSON document of the local storage file.\<close>

record grid_data =
  apartments :: "string list"
  validation_grid :: "string \<rightharpoonup> (string \<rightharpoonup> cell)"
  comments :: "string \<rightharpoonup> comment_data"
  grid_metadata :: metadata

text \<open>\<^verbatim>\<open>_initialize_local_storage\<close>: a zero cell for every ordered pair of known
  apartments. \<open>now\<close> is \<^verbatim>\<open>datetime.now().isoformat()\<close>.\<close>

definition zero_cell :: cell where
  "zero_cell = \<lparr>comment_count = 0, verified_comments = 0, confidence_sum = 0.0,
                 average_confidence = 0.0, last_updated = None\<rparr>"

definition initialize_local_storage :: "string \<Rightarrow> string list \<Rightarrow> grid_data" where
  "initialize_local_storage now apts =
     \<lparr>apartments = apts,
      validation_grid =
        (\<lambda>source_apt. if source_apt \<in> set apts
           then Some (\<lambda>target_apt. if target_apt \<in> set apts then Some zero_cell else None)
           else None),
      comments = Map.empty,
      grid_metadata = \<lparr>meta_created_at = now, meta_last_updated = now,
                        total_apartments = length apts\<rparr>\<rparr>"

text \<open>The update of one cell in \<^verbatim>\<open>_add_validation_local\<close>.\<close>

definition update_cell :: "string \<Rightarrow> comment_validation \<Rightarrow> cell \<Rightarrow> cell" where
  "update_cell now validation c =
     (let count = comment_count c + 1;
          total = confidence_sum c + confidence_score validation
      in \<lparr>comment_count = count,
          verified_comments =
            (if validation_status validation = ''verified'' then verified_comments c + 1
             else verified_comments c),
          confidence_sum = total,
          average_confidence = total / real count,
          last_updated = Some now\<rparr>)"

text \<open>The comment id used by \<^verbatim>\<open>_add_validation_local\<close>: the given one, or, when it is
  empty, the MD5 hex digest of source, mentioned apartment and the first 100 characters
  of the text. \<open>md5\<close> stands for \<^verbatim>\<open>hashlib.md5(...).hexdigest()\<close>.\<close>

definition effective_comment_id :: "(string \<Rightarrow> string) \<Rightarrow> comment_validation \<Rightarrow> string" where
  "effective_comment_id md5 validation =
     (if comment_id validation = []
      then md5 (source_apartment validation @ mentioned_apartment validation
                 @ take 100 (comment_text validation))
      else comment_id validation)"

text \<open>
  The body of the \<^verbatim>\<open>try\<close> block of \<^verbatim>\<open>_add_validation_local\<close> between loading and
  saving the document: the comment is stored under its id, and the cell of the pair is
  updated if the grid has a row for the source with a cell for the mentioned apartment.
\<close>

definition updated_grid ::
  "(string \<Rightarrow> string) \<Rightarrow> string \<Rightarrow> grid_data \<Rightarrow> comment_validation \<Rightarrow> grid_data" where
  "updated_grid md5 now grid validation =
     (let validation = validation\<lparr>comment_id := effective_comment_id md5 validation\<rparr>;
          source = source_apartment validation;
          mentioned = mentioned_apartment validation;
          new_comments =
            (comments grid)(comment_id validation \<mapsto> comment_data.truncate validation);
          new_grid =
            (case validation_grid grid source of
               None \<Rightarrow> validation_grid grid
             | Some row \<Rightarrow>
                 (case row mentioned of
                    None \<Rightarrow> validation_grid grid
                  | Some c \<Rightarrow>
                      (validation_grid grid)
                        (source \<mapsto> row(mentioned \<mapsto> update_cell now validation c))))
      in grid\<lparr>comments := new_comments, validation_grid := new_grid,
              grid_metadata := (grid_metadata grid)\<lparr>meta_last_updated := now\<rparr>\<rparr>)"

text \<open>
  \<^verbatim>\<open>_add_validation_local\<close>. The storage file is \<open>None\<close> when it cannot be read as a
  grid document: the exception is caught and the result is \<^verbatim>\<open>False\<close>. Otherwise the
  updated document is written back and the result is \<^verbatim>\<open>True\<close>. The validation object
  is returned too, since the function assigns its \<^verbatim>\<open>comment_id\<close>.
\<close>

definition add_validation_local ::
  "(string \<Rightarrow> string) \<Rightarrow> string \<Rightarrow> grid_data option \<Rightarrow> comment_validation
     \<Rightarrow> bool \<times> comment_validation \<times> grid_data option" where
  "add_validation_local md5 now storage validation =
     (case storage of
        None \<Rightarrow> (False, validation, None)
      | Some grid \<Rightarrow>
          (True, validation\<lparr>comment_id := effective_comment_id md5 validation\<rparr>,
           Some (updated_grid md5 now grid validation)))"

text \<open>The lookup \<^verbatim>\<open>grid_data['validation_grid'][source][mentioned]\<close>, \<open>None\<close> when the
  source has no row or the row no cell for the mentioned apartment.\<close>

definition cell_of :: "grid_data \<Rightarrow> string \<Rightarrow> string \<Rightarrow> cell option" where
  "cell_of grid source mentioned =
     (case validation_grid grid source of None \<Rightarrow> None | Some row \<Rightarrow> row mentioned)"

text \<open>The storage after a sequence of calls of \<^verbatim>\<open>add_comment_validation\<close> in local
  mode.\<close>

fun add_validations ::
  "(string \<Rightarrow> string) \<Rightarrow> grid_data option \<Rightarrow> (string \<times> comment_validation) list
     \<Rightarrow> grid_data option" where
  "add_validations md5 storage [] = storage"
| "add_validations md5 storage ((now, validation) # rest) =
     add_validations md5 (snd (snd (add_validation_local md5 now storage validation))) rest"


text \<open>The relation between the three statistics of a cell.\<close>

definition cell_inv :: "cell \<Rightarrow> bool" where
  "cell_inv c = (if comment_count c = 0 then average_confidence c = 0
                 else average_confidence c = confidence_sum c / real (comment_count c))"

section \<open>Sample data\<close>

text \<open>A sample of \<^verbatim>\<open>fuzz.ratio\<close> for the examples: 88 for (catalyst, catalist) and 93
  for (catalyst, catalys), as the library gives; every other word gets 0, which like any
  value below 85 fails the similarity threshold.\<close>

definition sample_ratio :: "string \<Rightarrow> string \<Rightarrow> nat" where
  "sample_ratio alias word =
     (if word = ''catalist'' then 88 else if word = ''catalys'' then 93 else 0)"

text \<open>A validation record for the examples: a comment about apartment A that mentions
  apartment B, with no comment id.\<close>

definition sample_validation :: comment_validation where
  "sample_validation =
     \<lparr>source_apartment = ''A'', mentioned_apartment = ''B'',
      comment_text = ''A is fine but B has better amenities'', confidence_score = 0.85,
      validation_status = ''verified'', created_at = ''2025-01-01T00:00:00'',
      reddit_post_id = ''p1'', reddit_comment_id = ''c1'', comment_id = []\<rparr>"

text \<open>Two alias sets for the examples.\<close>

definition sample_universe :: "apartment_alias list" where
  "sample_universe =
     [\<lparr>original_name = ''Catalyst Midtown'', aliases = [''catalyst midtown'', ''catalys''],
       confidence_scores = [''catalyst midtown'' \<mapsto> 1.0, ''catalys'' \<mapsto> 0.9]\<rparr>,
      \<lparr>original_name = ''Square On 5th'', aliases = [''square on 5th'', ''sq5''],
       confidence_scores = [''square on 5th'' \<mapsto> 1.0]\<rparr>]"

section \<open>Properties of the string operations\<close>

lemma startswith_prefix: "startswith t p = prefix p t"
  by (induction t p rule: startswith.induct) auto

lemma contains_sublist: "contains t s = sublist s t"
proof (induction t)
  case Nil
  then show ?case by simp
next
  case (Cons c cs)
  then show ?case
    by (cases s) (auto simp add: startswith_prefix sublist_Cons_right)
qed

lemma distinct_housing_context_keywords: "distinct housing_context_keywords"
  unfolding housing_context_keywords_def by simp

lemma context_count_card:
  "context_count text =
     card {k \<in> set housing_context_keywords. contains (lower text) k}"
proof -
  have "distinct (filter (\<lambda>k. contains (lower text) k) housing_context_keywords)"
    using distinct_housing_context_keywords by simp
  then have "card (set (filter (\<lambda>k. contains (lower text) k) housing_context_keywords)) =
      length (filter (\<lambda>k. contains (lower text) k) housing_context_keywords)"
    by (rule distinct_card)
  then show ?thesis
    unfolding context_count_def by simp
qed

section \<open>Properties of mention detection\<close>

lemma foldl_max_ge_iff:
  "((c::real) \<le> foldl (\<lambda>m x. max m (f x)) b xs) = (c \<le> b \<or> (\<exists>x\<in>set xs. c \<le> f x))"
  by (induction xs arbitrary: b) (auto simp: le_max_iff_disj)

lemma best_mention_score_ge_iff:
  "(0.6 \<le> best_mention_score ratio als txt) =
     (\<exists>alias\<in>set (aliases als). 0.6 \<le> alias_score ratio (get_confidence als alias) alias txt)"
  unfolding best_mention_score_def by (simp add: foldl_max_ge_iff)

lemma find_mentioned_foldl:
  "foldl (\<lambda>mentioned apt_name.
              case AA apt_name of
                None \<Rightarrow> mentioned
              | Some als \<Rightarrow>
                  (let best_score = best_mention_score ratio als txt
                   in if best_score \<ge> 0.6 then mentioned(apt_name \<mapsto> best_score)
                      else mentioned)) m apts apt =
   (if apt \<in> set apts \<and> (\<exists>als. AA apt = Some als \<and> 0.6 \<le> best_mention_score ratio als txt)
    then Some (best_mention_score ratio (the (AA apt)) txt) else m apt)"
  by (induction apts arbitrary: m) (auto simp: Let_def split: option.splits)

lemma find_mentioned_lookup:
  "find_mentioned_apartments ratio apts AA text apt =
   (if apt \<in> set apts \<and>
       (\<exists>als. AA apt = Some als \<and> 0.6 \<le> best_mention_score ratio als (lower text))
    then Some (best_mention_score ratio (the (AA apt)) (lower text)) else None)"
  unfolding find_mentioned_apartments_def by (simp add: find_mentioned_foldl)

lemma alias_score_ge_iff:
  "(0.6 \<le> alias_score ratio c alias txt) =
     (if contains txt alias then 0.6 \<le> c
      else length alias > 4 \<and>
         (\<exists>word. find (\<lambda>w. 85 \<le> ratio alias w) (split txt) = Some word \<and>
            0.6 \<le> c * (real (ratio alias word) / 100)))"
  unfolding alias_score_def by (auto split: option.splits)

lemma lower_sample_text:
  "lower ''I saw Catalist and catalys'' = ''i saw catalist and catalys''"
  by (simp add: lower_def lower_char_def upper_to_lower_def)

lemma split_sample_text:
  "split ''i saw catalist and catalys'' = [''i'', ''saw''] @ ''catalist'' # [''and'', ''catalys'']"
  by (simp add: split_def is_space_def)

section \<open>Properties of fuzzy matching\<close>

lemma Max_insert_max:
  "finite A \<Longrightarrow> Max (insert (max (b::nat) x) A) = Max (insert b (insert x A))"
  by (cases "A = {}") (simp_all add: max.assoc)

lemma best_match_foldl_fst:
  "fst (foldl (\<lambda>(best_score, best_alias, confidence) alias.
              let score = f alias
              in if score > best_score
                 then (score, Some alias, g alias)
                 else (best_score, best_alias, confidence)) s xs)
   = Max (insert (fst s :: nat) (f ` set xs))"
proof (induction xs arbitrary: s)
  case Nil
  then show ?case by simp
next
  case (Cons x xs)
  let ?step = "\<lambda>(best_score, best_alias, confidence) alias.
              let score = f alias
              in if score > best_score
                 then (score, Some alias, g alias)
                 else (best_score, best_alias, confidence)"
  have step: "fst (?step s x) = max (fst s) (f x)"
    by (cases s) (simp add: Let_def max_def)
  have "fst (foldl ?step s (x # xs)) = fst (foldl ?step (?step s x) xs)"
    by (simp only: foldl_Cons)
  also have "\<dots> = Max (insert (fst (?step s x)) (f ` set xs))"
    by (rule Cons.IH)
  also have "\<dots> = Max (insert (fst s) (f ` set (x # xs)))"
    unfolding step by (simp add: Max_insert_max)
  finally show ?case .
qed

lemma fst_best_match:
  "fst (best_match ratio stl apt) = Max (insert 0 (match_score ratio stl ` set (aliases apt)))"
  unfolding best_match_def by (simp add: best_match_foldl_fst)

lemma collect_matches_Cons:
  "collect_matches ratio stl (a # rest) t =
     (if t \<le> int (fst (best_match ratio stl a))
      then [(original_name a, best_match ratio stl a)] else [])
     @ collect_matches ratio stl rest t"
  by (simp split: prod.splits)

lemma set_collect_matches:
  "set (collect_matches ratio stl universe t) =
     {(original_name apt, best_match ratio stl apt) | apt.
        apt \<in> set universe \<and> t \<le> int (fst (best_match ratio stl apt))}"
proof (induction universe)
  case Nil
  then show ?case by simp
next
  case (Cons a universe)
  show ?case
    unfolding collect_matches_Cons set_append Cons.IH by auto
qed

lemma set_find_best_match:
  "set (find_best_match ratio q universe t) =
     {(original_name apt, best_match ratio (lower q) apt) | apt.
        apt \<in> set universe \<and> t \<le> int (fst (best_match ratio (lower q) apt))}"
  unfolding find_best_match_def by (simp add: set_collect_matches)

section \<open>Properties of the validation grid\<close>

lemma truncate_comment_id:
  "comment_data.truncate (v\<lparr>comment_id := x\<rparr>) = comment_data.truncate v"
  by (simp add: comment_data.truncate_def)

lemma cell_of_updated_grid:
  "cell_of (updated_grid md5 now g v) s m =
     (if s = source_apartment v \<and> m = mentioned_apartment v
      then map_option (update_cell now (v\<lparr>comment_id := effective_comment_id md5 v\<rparr>))
             (cell_of g s m)
      else cell_of g s m)"
  by (auto simp add: updated_grid_def Let_def cell_of_def split: option.splits)

lemma comments_updated_grid:
  "comments (updated_grid md5 now g v) =
     (comments g)(effective_comment_id md5 v \<mapsto> comment_data.truncate v)"
  by (simp add: updated_grid_def Let_def truncate_comment_id)


lemma comment_count_update_cell:
  "comment_count (update_cell now v c) = comment_count c + 1"
  by (simp add: update_cell_def Let_def)

lemma add_validations_Cons_Some:
  "add_validations md5 (Some g) ((now, v) # rest) =
     add_validations md5 (Some (updated_grid md5 now g v)) rest"
  by (simp add: add_validation_local_def)

lemma add_validations_Some:
  "\<exists>g'. add_validations md5 (Some g) calls = Some g'"
proof (induction calls arbitrary: g)
  case Nil
  then show ?case by simp
next
  case (Cons call calls)
  then show ?case
    by (cases call) (simp add: add_validation_local_def)
qed

lemma cell_inv_update: "cell_inv (update_cell now v c)"
  by (simp add: cell_inv_def update_cell_def Let_def)

lemma add_validations_inv:
  assumes "\<And>s m c. cell_of g s m = Some c \<Longrightarrow> cell_inv c"
    and "add_validations md5 (Some g) calls = Some g'"
    and "cell_of g' s m = Some c"
  shows "cell_inv c"
  using assms
proof (induction calls arbitrary: g)
  case Nil
  then show ?case by simp
next
  case (Cons call calls)
  obtain now v where call: "call = (now, v)"
    by (cases call)
  have step: "\<And>s m c. cell_of (updated_grid md5 now g v) s m = Some c \<Longrightarrow> cell_inv c"
    using Cons.prems(1) by (auto simp: cell_of_updated_grid cell_inv_update split: if_splits)
  from Cons.prems(2) have "add_validations md5 (Some (updated_grid md5 now g v)) calls = Some g'"
    by (simp add: call add_validation_local_def)
  from Cons.IH[OF step this Cons.prems(3)] show ?case .
qed

lemma cell_of_initialize:
  "cell_of (initialize_local_storage now apts) s m =
     (if s \<in> set apts \<and> m \<in> set apts then Some zero_cell else None)"
  by (simp add: cell_of_def initialize_local_storage_def)

text \<open>A cell may have an average of 0 at a positive count: a record of confidence 0.\<close>

lemma average_zero_with_positive_count:
  "update_cell now (sample_validation\<lparr>confidence_score := 0\<rparr>) zero_cell =
     \<lparr>comment_count = 1, verified_comments = 1, confidence_sum = 0, average_confidence = 0,
      last_updated = Some now\<rparr>"
  by (simp add: update_cell_def zero_cell_def sample_validation_def Let_def)


section \<open>Properties of the search terms\<close>







text \<open>With two entries of confidence 1.0 the set iteration order decides which comes
  first: the lowercased name need not.\<close>

lemma is_set_order_rev_remdups: "is_set_order (\<lambda>xs. rev (remdups xs))"
  by (simp add: is_set_order_def)

lemma canonical_not_first_on_tie:
  "generate_search_terms (\<lambda>xs. rev (remdups xs))
     [''abc'' \<mapsto> \<lparr>original_name = ''abc'', aliases = [''x''],
                    confidence_scores = [''x'' \<mapsto> 1.0]\<rparr>] ''abc''
     = [(''x'', 1.0), (''abc'', 1.0)]"
  by (simp add: generate_search_terms_def get_confidence_def lower_def lower_char_def
      upper_to_lower_def)

section \<open>Properties of alias generation\<close>

lemma fst_add_aliases: "set (fst state) \<subseteq> set (fst (add_aliases new weight state))"
  by (cases state) (simp add: add_aliases_def)

lemma snd_add_aliases:
  "snd (add_aliases new weight state) a = (if a \<in> set new then Some weight else snd state a)"
  by (cases state) (simp add: add_aliases_def)

lemma original_name_is_alias:
  "lower n \<in> set (aliases (generate_all_aliases soundex location_config n))"
proof -
  have "lower n \<in> set (fst ([lower n], [lower n \<mapsto> 1::real]))"
    by simp
  then show ?thesis
    unfolding generate_all_aliases_def Let_def
    using fst_add_aliases by (simp add: subset_iff)
qed

lemma basic_alias_confidence:
  assumes "a \<in> set (generate_basic_aliases n)"
  shows "confidence_scores (generate_all_aliases soundex location_config n) a
           \<in> {Some 0.9, Some 0.8, Some 0.7, Some 0.6, Some 0.85, Some 0.75}"
  using assms unfolding generate_all_aliases_def Let_def
  by (simp add: snd_add_aliases)

lemma lower_char_keeps_word_or_space:
  assumes "is_word_char c \<or> is_space c"
  shows "is_word_char (lower_char c) \<or> is_space (lower_char c)"
proof (cases "map_of upper_to_lower c")
  case None
  then show ?thesis
    using assms by (simp add: lower_char_def)
next
  case (Some d)
  then have "(c, d) \<in> set upper_to_lower"
    by (rule map_of_SomeD)
  then have "d \<in> set ''abcdefghijklmnopqrstuvwxyz''"
    unfolding upper_to_lower_def by (rule set_zip_rightD)
  then have "is_word_char d"
    unfolding is_word_char_def set_append by blast
  then show ?thesis
    using Some by (simp add: lower_char_def)
qed

lemma remove_punctuation_lower:
  assumes "list_all (\<lambda>c. is_word_char c \<or> is_space c) n"
  shows "remove_punctuation (lower n) = lower n"
  using assms unfolding remove_punctuation_def lower_def
  by (induction n) (simp_all add: lower_char_keeps_word_or_space)

lemma punctuation_free_name_is_basic_alias:
  assumes "list_all (\<lambda>c. is_word_char c \<or> is_space c) n"
  shows "lower n \<in> set (generate_basic_aliases n)"
  using remove_punctuation_lower[OF assms]
  by (simp add: generate_basic_aliases_def Let_def)

lemma punctuation_free_name_confidence_below_one:
  assumes "list_all (\<lambda>c. is_word_char c \<or> is_space c) n"
  shows "confidence_scores (generate_all_aliases soundex location_config n) (lower n)
           \<in> {Some 0.9, Some 0.8, Some 0.7, Some 0.6, Some 0.85, Some 0.75}"
  using punctuation_free_name_is_basic_alias[OF assms] by (rule basic_alias_confidence)

section \<open>The housing-context gate: claims\<close>

text \<open>
  C8. For every text, \<^verbatim>\<open>_has_housing_context\<close> returns true exactly when at least two
  distinct housing-context keywords are found in the lowercased text. It returns false on
  "Random comment about pizza" and true on "The rent and parking here are great".
\<close>

theorem has_housing_context_iff_two_keywords:
  "has_housing_context text =
     (2 \<le> card {k \<in> set housing_context_keywords. contains (lower text) k})
   \<and> \<not> has_housing_context ''Random comment about pizza''
   \<and> has_housing_context ''The rent and parking here are great''"
proof -
  have general: "has_housing_context text =
     (2 \<le> card {k \<in> set housing_context_keywords. contains (lower text) k})"
    unfolding has_housing_context_def context_count_card by simp
  have pizza: "\<not> has_housing_context ''Random comment about pizza''"
    by code_simp
  have rent: "has_housing_context ''The rent and parking here are great''"
    by code_simp
  from general pizza rent show ?thesis by simp
qed

text \<open>
  C10 (as stated, refuted). The claim takes both "park" and "parking" to be keywords, so
  that the single word "parking" would give two hits. The keyword set has no "park": the
  text "parking" gives one hit and does not pass the gate.
\<close>

theorem parking_alone_fails_gate:
  "''park'' \<notin> set housing_context_keywords \<and> context_count ''parking'' = 1
   \<and> \<not> has_housing_context ''parking''"
  by code_simp

text \<open>
  C10 (amended). A keyword is a hit whenever it occurs in the lowercased text as a
  substring, also inside a longer word: every text in which two different keywords occur
  as substrings passes the gate.
\<close>

theorem substring_keywords_pass_gate:
  assumes "k1 \<in> set housing_context_keywords" and "k2 \<in> set housing_context_keywords"
    and "k1 \<noteq> k2"
    and "contains (lower text) k1" and "contains (lower text) k2"
  shows "has_housing_context text"
proof -
  let ?hits = "{k \<in> set housing_context_keywords. contains (lower text) k}"
  have "{k1, k2} \<subseteq> ?hits"
    using assms by simp
  moreover have "finite ?hits"
    by simp
  ultimately have "card {k1, k2} \<le> card ?hits"
    by (rule card_mono[rotated])
  moreover have "card {k1, k2} = 2"
    using assms(3) by simp
  ultimately show ?thesis
    unfolding has_housing_context_def context_count_card by simp
qed

theorem substring_keywords_pass_gate_witness:
  "''rent'' \<in> set housing_context_keywords \<and> ''walk'' \<in> set housing_context_keywords
   \<and> contains (lower ''Parents on sidewalks'') ''rent''
   \<and> contains (lower ''Parents on sidewalks'') ''walk''
   \<and> has_housing_context ''Parents on sidewalks''"
  using substring_keywords_pass_gate[of "''rent''" "''walk''" "''Parents on sidewalks''"]
  by (simp add: housing_context_keywords_def lower_def lower_char_def upper_to_lower_def)

section \<open>Mention detection: claims\<close>

text \<open>
  C6. For every text, an apartment is a key of the mapping returned by
  \<^verbatim>\<open>_find_mentioned_apartments\<close> exactly when it is one of the known apartments with an
  alias set and one of its aliases scores at least 0.6 (that is, the maximum over its
  aliases is at least 0.6), where an alias scores its confidence when it occurs in the
  lowercased text, else, when it is longer than 4 characters, confidence times
  ratio/100 for the word of the text found by the fuzzy match with ratio at least 85,
  else 0.
\<close>

theorem find_mentioned_iff_best_alias_clears_threshold:
  "(apt \<in> dom (find_mentioned_apartments ratio apts apartment_aliases text)) =
     (apt \<in> set apts \<and>
      (\<exists>als. apartment_aliases apt = Some als \<and>
         (\<exists>alias\<in>set (aliases als).
            if contains (lower text) alias then 0.6 \<le> get_confidence als alias
            else length alias > 4 \<and>
              (\<exists>word. find (\<lambda>w. 85 \<le> ratio alias w) (split (lower text)) = Some word \<and>
                 0.6 \<le> get_confidence als alias * (real (ratio alias word) / 100)))))"
proof -
  have "(apt \<in> dom (find_mentioned_apartments ratio apts apartment_aliases text)) =
     (apt \<in> set apts \<and>
      (\<exists>als. apartment_aliases apt = Some als \<and>
         0.6 \<le> best_mention_score ratio als (lower text)))"
    by (simp add: dom_def find_mentioned_lookup)
  then show ?thesis
    by (simp only: best_mention_score_ge_iff alias_score_ge_iff)
qed

theorem find_mentioned_iff_best_alias_clears_threshold_witness:
  "''Catalyst Midtown'' \<in> dom (find_mentioned_apartments sample_ratio [''Catalyst Midtown'']
      [''Catalyst Midtown'' \<mapsto>
         \<lparr>original_name = ''Catalyst Midtown'', aliases = [''catalyst midtown'', ''catalyst''],
          confidence_scores = [''catalyst midtown'' \<mapsto> 1.0, ''catalyst'' \<mapsto> 0.9]\<rparr>]
      ''I saw Catalist and catalys'')"
  unfolding find_mentioned_iff_best_alias_clears_threshold lower_sample_text
  by (simp add: split_sample_text get_confidence_def sample_ratio_def)

text \<open>
  C9. When an alias longer than 4 characters does not occur in the text, its score comes
  from the first word, in text order, whose ratio is at least 85: whatever the ratios of
  the words after it, the score is the confidence times that first word's ratio over 100.
  In the example the later word "catalys" has the higher ratio 93, and the score uses
  the 88 of "catalist".
\<close>

theorem alias_score_uses_first_similar_word:
  assumes "\<not> contains text_lower alias" and "length alias > 4"
    and "split text_lower = before @ word # rest"
    and "\<forall>w\<in>set before. ratio alias w < 85"
    and "ratio alias word \<ge> 85"
  shows "alias_score ratio confidence alias text_lower =
           confidence * (real (ratio alias word) / 100)"
proof -
  have "find (\<lambda>w. 85 \<le> ratio alias w) (before @ word # rest) = Some word"
    using assms(4,5) by (induction before) auto
  then show ?thesis
    using assms(1,2,3) by (simp add: alias_score_def)
qed

theorem alias_score_uses_first_similar_word_witness:
  "\<not> contains ''i saw catalist and catalys'' ''catalyst''
   \<and> split ''i saw catalist and catalys'' = [''i'', ''saw''] @ ''catalist'' # [''and'', ''catalys'']
   \<and> sample_ratio ''catalyst'' ''i'' < 85 \<and> sample_ratio ''catalyst'' ''saw'' < 85
   \<and> sample_ratio ''catalyst'' ''catalist'' = 88
   \<and> sample_ratio ''catalyst'' ''catalys'' = 93
   \<and> alias_score sample_ratio 0.9 ''catalyst'' ''i saw catalist and catalys'' = 0.9 * (88 / 100)"
  using alias_score_uses_first_similar_word[of "''i saw catalist and catalys''" "''catalyst''"
      "[''i'', ''saw'']" "''catalist''" "[''and'', ''catalys'']" sample_ratio "0.9"]
  by (simp add: split_sample_text sample_ratio_def)

section \<open>Fuzzy matching: claims\<close>

text \<open>
  C5. Every entry returned by \<^verbatim>\<open>find_best_match\<close> at threshold \<open>t\<close> comes from an alias
  set of the universe, carries the best score over that set's aliases, and this score is
  at least \<open>t\<close>; and for thresholds \<open>t1 \<le> t2\<close> the entries returned at \<open>t2\<close> are among
  those returned at \<open>t1\<close>.
\<close>

theorem find_best_match_threshold_monotone:
  "(\<forall>m \<in> set (find_best_match ratio query universe t).
      \<exists>apt \<in> set universe. fst m = original_name apt
        \<and> fst (snd m) = Max (insert 0 (match_score ratio (lower query) ` set (aliases apt)))
        \<and> t \<le> int (fst (snd m)))
   \<and> (t1 \<le> t2 \<longrightarrow>
        set (find_best_match ratio query universe t2)
          \<subseteq> set (find_best_match ratio query universe t1))"
proof (intro conjI ballI impI)
  fix m
  assume "m \<in> set (find_best_match ratio query universe t)"
  then obtain apt where apt: "apt \<in> set universe"
      "m = (original_name apt, best_match ratio (lower query) apt)"
      "t \<le> int (fst (best_match ratio (lower query) apt))"
    unfolding set_find_best_match by blast
  then show "\<exists>apt \<in> set universe. fst m = original_name apt
        \<and> fst (snd m) = Max (insert 0 (match_score ratio (lower query) ` set (aliases apt)))
        \<and> t \<le> int (fst (snd m))"
    by (intro bexI[of _ apt]) (simp_all add: fst_best_match)
next
  assume "t1 \<le> t2"
  then show "set (find_best_match ratio query universe t2)
      \<subseteq> set (find_best_match ratio query universe t1)"
    unfolding set_find_best_match by force
qed

theorem find_best_match_threshold_monotone_witness:
  "(80::int) \<le> 95
   \<and> set (find_best_match sample_ratio ''Catalyst'' sample_universe 95)
       \<subseteq> set (find_best_match sample_ratio ''Catalyst'' sample_universe 80)
   \<and> (''Catalyst Midtown'', 93, Some ''catalys'', 0.9)
       \<in> set (find_best_match sample_ratio ''Catalyst'' sample_universe 80)
   \<and> (\<exists>apt \<in> set sample_universe. ''Catalyst Midtown'' = original_name apt
        \<and> 93 = Max (insert 0 (match_score sample_ratio (lower ''Catalyst'') ` set (aliases apt)))
        \<and> (80::int) \<le> 93)"
proof -
  have le: "(80::int) \<le> 95"
    by simp
  have entry: "(''Catalyst Midtown'', 93, Some ''catalys'', 0.9)
       \<in> set (find_best_match sample_ratio ''Catalyst'' sample_universe 80)"
    by (simp add: sample_universe_def find_best_match_def best_match_def match_score_def
        sample_ratio_def get_confidence_def lower_def lower_char_def upper_to_lower_def)
  note mono = find_best_match_threshold_monotone[of sample_ratio "''Catalyst''" sample_universe 80 80 95]
  from mono le have "set (find_best_match sample_ratio ''Catalyst'' sample_universe 95)
       \<subseteq> set (find_best_match sample_ratio ''Catalyst'' sample_universe 80)"
    by blast
  moreover from mono entry have "\<exists>apt \<in> set sample_universe. ''Catalyst Midtown'' = original_name apt
        \<and> 93 = Max (insert 0 (match_score sample_ratio (lower ''Catalyst'') ` set (aliases apt)))
        \<and> (80::int) \<le> 93"
    by fastforce
  ultimately show ?thesis
    using le entry by blast
qed

section \<open>The validation grid: claims\<close>

text \<open>
  C7. Every sequence of \<^verbatim>\<open>add_comment_validation\<close> calls on an initialised local grid
  ends in a grid document, and in it every cell has an average confidence of exactly 0
  when its comment count is 0, and of confidence sum divided by comment count otherwise.
\<close>

theorem average_confidence_invariant:
  "\<exists>g. add_validations md5 (Some (initialize_local_storage now apts)) calls = Some g \<and>
     (\<forall>s m c. cell_of g s m = Some c \<longrightarrow>
        (if comment_count c = 0 then average_confidence c = 0
         else average_confidence c = confidence_sum c / real (comment_count c)))"
proof -
  obtain g where g: "add_validations md5 (Some (initialize_local_storage now apts)) calls = Some g"
    using add_validations_Some by blast
  have "cell_inv c" if "cell_of g s m = Some c" for s m c
  proof (rule add_validations_inv[OF _ g that])
    fix s m c assume "cell_of (initialize_local_storage now apts) s m = Some c"
    then show "cell_inv c"
      by (auto simp: cell_of_initialize cell_inv_def zero_cell_def split: if_splits)
  qed
  with g show ?thesis unfolding cell_inv_def by blast
qed

theorem average_confidence_invariant_witness:
  "\<exists>g c. add_validations (\<lambda>s. s) (Some (initialize_local_storage ''t0'' [''A'', ''B'']))
           [(''t1'', sample_validation), (''t2'', sample_validation\<lparr>confidence_score := 0.65\<rparr>)] = Some g
     \<and> cell_of g ''A'' ''B'' = Some c \<and> comment_count c = 2 \<and> confidence_sum c = 1.5
     \<and> average_confidence c = confidence_sum c / real (comment_count c)
     \<and> average_confidence c = 0.75"
proof -
  let ?calls = "[(''t1'', sample_validation), (''t2'', sample_validation\<lparr>confidence_score := 0.65\<rparr>)]"
  from average_confidence_invariant[of "\<lambda>s. s" "''t0''" "[''A'', ''B'']" ?calls]
  obtain g where g: "add_validations (\<lambda>s. s) (Some (initialize_local_storage ''t0'' [''A'', ''B''])) ?calls = Some g"
    and inv: "\<And>s m c. cell_of g s m = Some c \<Longrightarrow>
        (if comment_count c = 0 then average_confidence c = 0
         else average_confidence c = confidence_sum c / real (comment_count c))"
    by blast
  from g have "g = updated_grid (\<lambda>s. s) ''t2''
        (updated_grid (\<lambda>s. s) ''t1'' (initialize_local_storage ''t0'' [''A'', ''B'']) sample_validation)
        (sample_validation\<lparr>confidence_score := 0.65\<rparr>)"
    by (simp add: add_validation_local_def)
  then obtain c where c: "cell_of g ''A'' ''B'' = Some c" "comment_count c = 2" "confidence_sum c = 1.5"
    by (simp add: cell_of_updated_grid cell_of_initialize sample_validation_def
        update_cell_def Let_def zero_cell_def)
  from inv[OF c(1)] c(2,3) have "average_confidence c = confidence_sum c / real (comment_count c)"
    "average_confidence c = 0.75" by simp_all
  with g c show ?thesis by blast
qed





text \<open>
  C1 (as stated, refuted). Recording the identical record twice on a fresh grid raises
  the comment count of its cell from 0 to 2, not to 1.
\<close>

theorem identical_record_counted_twice:
  "cell_of (initialize_local_storage ''t0'' [''A'', ''B'']) ''A'' ''B'' = Some zero_cell
   \<and> comment_count zero_cell = 0
   \<and> (\<exists>g c. add_validations (\<lambda>s. s) (Some (initialize_local_storage ''t0'' [''A'', ''B'']))
               [(''t1'', sample_validation), (''t2'', sample_validation)] = Some g
         \<and> cell_of g ''A'' ''B'' = Some c \<and> comment_count c = 2)"
  by (simp add: add_validation_local_def cell_of_updated_grid cell_of_initialize
      comment_count_update_cell zero_cell_def sample_validation_def)

text \<open>
  C1 (amended). For a record whose pair has a cell: two calls with the identical record
  keep one stored comment under its id (given, or derived from source, mentioned
  apartment and the first 100 characters of the text) and raise the cell's comment count
  by exactly 2, since every call increments it; two calls with records of different ids
  and the same pair store both comments and raise the count by exactly 2.
\<close>

theorem every_call_increments_comment_count:
  assumes "cell_of g (source_apartment v) (mentioned_apartment v) = Some c"
    and "source_apartment w = source_apartment v"
    and "mentioned_apartment w = mentioned_apartment v"
    and "effective_comment_id md5 w \<noteq> effective_comment_id md5 v"
  shows "(\<exists>g2 c2. add_validations md5 (Some g) [(now1, v), (now2, v)] = Some g2
            \<and> cell_of g2 (source_apartment v) (mentioned_apartment v) = Some c2
            \<and> comment_count c2 = comment_count c + 2
            \<and> comments g2 (effective_comment_id md5 v) = Some (comment_data.truncate v))
       \<and> (\<exists>g2 c2. add_validations md5 (Some g) [(now1, v), (now2, w)] = Some g2
            \<and> cell_of g2 (source_apartment v) (mentioned_apartment v) = Some c2
            \<and> comment_count c2 = comment_count c + 2
            \<and> comments g2 (effective_comment_id md5 v) = Some (comment_data.truncate v)
            \<and> comments g2 (effective_comment_id md5 w) = Some (comment_data.truncate w))"
  using assms
  by (simp add: add_validation_local_def cell_of_updated_grid comments_updated_grid
      comment_count_update_cell)

theorem every_call_increments_comment_count_witness:
  "cell_of (initialize_local_storage ''t0'' [''A'', ''B'']) ''A'' ''B'' = Some zero_cell
   \<and> (\<exists>g2 c2. add_validations (\<lambda>s. s) (Some (initialize_local_storage ''t0'' [''A'', ''B'']))
            [(''t1'', sample_validation), (''t2'', sample_validation\<lparr>comment_id := ''other''\<rparr>)] = Some g2
         \<and> cell_of g2 ''A'' ''B'' = Some c2 \<and> comment_count c2 = 2
         \<and> comments g2 ''ABA is fine but B has better amenities''
              = Some (comment_data.truncate sample_validation)
         \<and> comments g2 ''other'' = Some (comment_data.truncate sample_validation))
   \<and> (\<exists>g2 c2. add_validations (\<lambda>s. s) (Some (initialize_local_storage ''t0'' [''A'', ''B'']))
            [(''t1'', sample_validation), (''t2'', sample_validation)] = Some g2
         \<and> cell_of g2 ''A'' ''B'' = Some c2 \<and> comment_count c2 = 2
         \<and> comments g2 ''ABA is fine but B has better amenities''
              = Some (comment_data.truncate sample_validation))"
proof -
  have cell: "cell_of (initialize_local_storage ''t0'' [''A'', ''B'']) ''A'' ''B'' = Some zero_cell"
    by (simp add: cell_of_initialize)
  have v: "source_apartment sample_validation = ''A''"
    "mentioned_apartment sample_validation = ''B''"
    "effective_comment_id (\<lambda>s. s) sample_validation = ''ABA is fine but B has better amenities''"
    by (simp_all add: sample_validation_def effective_comment_id_def)
  have w: "source_apartment (sample_validation\<lparr>comment_id := ''other''\<rparr>) = ''A''"
    "mentioned_apartment (sample_validation\<lparr>comment_id := ''other''\<rparr>) = ''B''"
    "effective_comment_id (\<lambda>s. s) (sample_validation\<lparr>comment_id := ''other''\<rparr>) = ''other''"
    by (simp_all add: sample_validation_def effective_comment_id_def)
  from every_call_increments_comment_count[of "initialize_local_storage ''t0'' [''A'', ''B'']" sample_validation zero_cell
      "sample_validation\<lparr>comment_id := ''other''\<rparr>" "\<lambda>s. s" "''t1''" "''t2''"] cell
  show ?thesis
    unfolding v w by (simp add: zero_cell_def truncate_comment_id numeral_2_eq_2)
qed


section \<open>Search terms: claims\<close>






section \<open>Alias generation: claims\<close>

text \<open>
  C2 (the code departs from the claim). The lowercased name is always among the aliases
  returned by \<^verbatim>\<open>generate_all_aliases\<close>, but its confidence is not 1.0: the basic pass
  returns the lowercased name again (as the name without punctuation) and its loop
  assigns 0.9 over the 1.0 given first. For "Square On 5th" and for the empty name the
  confidence differs from 1.0 whatever the Soundex code and the location configuration
  are, and it is 0.9 when no later pass returns the name.
\<close>

theorem original_name_confidence_overwritten:
  "lower ''Square On 5th'' = ''square on 5th''
   \<and> ''square on 5th'' \<in> set (aliases (generate_all_aliases soundex location_config ''Square On 5th''))
   \<and> confidence_scores (generate_all_aliases soundex location_config ''Square On 5th'')
         ''square on 5th'' \<noteq> Some 1
   \<and> confidence_scores (generate_all_aliases (\<lambda>name. None) [] ''Square On 5th'')
         ''square on 5th'' = Some 0.9
   \<and> lower [] = []
   \<and> confidence_scores (generate_all_aliases soundex location_config []) [] \<noteq> Some 1
   \<and> confidence_scores (generate_all_aliases (\<lambda>name. None) [] []) [] = Some 0.9"
proof -
  have low: "lower ''Square On 5th'' = ''square on 5th''" "lower [] = []"
    by (simp_all add: lower_def lower_char_def upper_to_lower_def)
  have p1: "list_all (\<lambda>c. is_word_char c \<or> is_space c) ''Square On 5th''"
    by (simp add: is_word_char_def is_space_def)
  have p2: "list_all (\<lambda>c. is_word_char c \<or> is_space c) []"
    by simp
  have m: "''square on 5th''
      \<in> set (aliases (generate_all_aliases soundex location_config ''Square On 5th''))"
    using original_name_is_alias[of "''Square On 5th''" soundex location_config]
    by (simp add: low)
  have c1: "confidence_scores (generate_all_aliases soundex location_config ''Square On 5th'')
         ''square on 5th'' \<noteq> Some 1"
    using punctuation_free_name_confidence_below_one[OF p1, of soundex location_config]
    by (auto simp: low)
  have c2: "confidence_scores (generate_all_aliases soundex location_config []) [] \<noteq> Some 1"
    using punctuation_free_name_confidence_below_one[OF p2, of soundex location_config]
    by (auto simp: low)
  have e1: "confidence_scores (generate_all_aliases (\<lambda>name. None) [] ''Square On 5th'')
         ''square on 5th'' = Some 0.9"
    by code_simp
  have e2: "confidence_scores (generate_all_aliases (\<lambda>name. None) [] []) [] = Some 0.9"
    by code_simp
  from low m c1 c2 e1 e2 show ?thesis
    by simp
qed


end
